theory Spec2Isabelle
  imports Complex_Main "HOL-Library.Sublist" "HOL-Library.Char_ord" "HOL-Library.List_Lexorder"
begin

section \<open>Data model\<close>

text \<open>
  The program is \<^verbatim>\<open>src/etl.py\<close>: a pandas data frame is cleaned column by column,
  each column by the strategy that a \<^verbatim>\<open>ConfigParser\<close> object assigns to it.

  A cell of a frame is the null marker (pandas \<^verbatim>\<open>NaN\<close>/\<^verbatim>\<open>None\<close>), a number or a text.
  Numbers are rationals: floating-point rounding and the infinities are outside the model.
  Temporal cells are outside the model as well. Strings are byte strings.
\<close>

datatype cell = Null | Num rat | Str string

text \<open>
  A frame has a row index (the labels \<^verbatim>\<open>read_csv\<close> numbers the rows with) and an ordered
  list of named columns. \<^verbatim>\<open>df[column]\<close> on a frame with two columns of one name is not a
  series in pandas; the model is of frames whose column names are distinct and whose
  columns all have one entry per row, which \<open>wf_frame\<close> says.
\<close>

record frame =
  index :: "nat list"
  cols :: "(string \<times> cell list) list"

definition columns :: "frame \<Rightarrow> string list" where
  "columns df = map fst (cols df)"

definition wf_frame :: "frame \<Rightarrow> bool" where
  "wf_frame df \<longleftrightarrow>
     distinct (columns df) \<and> list_all (\<lambda>c. length (snd c) = length (index df)) (cols df)"

text \<open>The exceptions that the modelled code and the library calls it makes can raise.\<close>

datatype exn =
    AttributeError string
  | KeyError
  | TypeError
  | ValueError
  | ImportError
  | NoSectionError
  | NoOptionError
  | ParsingError
  | OSError

text \<open>\<^verbatim>\<open>df[column]\<close>: the series of that name, \<^verbatim>\<open>KeyError\<close> when there is none.\<close>

definition getitem :: "frame \<Rightarrow> string \<Rightarrow> exn + cell list" where
  "getitem df column =
     (case map_of (cols df) column of None \<Rightarrow> Inl KeyError | Some xs \<Rightarrow> Inr xs)"

text \<open>\<^verbatim>\<open>s.isnull().any()\<close> and \<^verbatim>\<open>(s == '').any()\<close> on a series.\<close>

definition isnull_any :: "cell list \<Rightarrow> bool" where
  "isnull_any xs = list_ex (\<lambda>x. x = Null) xs"

definition eq_empty_any :: "cell list \<Rightarrow> bool" where
  "eq_empty_any xs = list_ex (\<lambda>x. x = Str []) xs"

section \<open>Strings and the configuration\<close>

text \<open>
  \<^verbatim>\<open>str.strip()\<close> and \<^verbatim>\<open>str.lower()\<close> on byte strings: the ASCII white space and the
  ASCII capital letters.
\<close>

definition is_space :: "char \<Rightarrow> bool" where
  "is_space c \<longleftrightarrow>
     (let n = (of_char c :: nat) in (9 \<le> n \<and> n \<le> 13) \<or> (28 \<le> n \<and> n \<le> 32))"

definition strip :: "string \<Rightarrow> string" where
  "strip s = rev (dropWhile is_space (rev (dropWhile is_space s)))"

definition lower_char :: "char \<Rightarrow> char" where
  "lower_char c =
     (let n = (of_char c :: nat) in if 65 \<le> n \<and> n \<le> 90 then char_of (n + 32) else c)"

definition lower :: "string \<Rightarrow> string" where
  "lower s = map lower_char s"

text \<open>
  A \<^verbatim>\<open>ConfigParser\<close> object as the code reads it: the sections in file order, each with
  the options \<^verbatim>\<open>get\<close> finds in it and the values \<^verbatim>\<open>get\<close> returns for them.
\<close>

type_synonym config = "(string \<times> (string \<times> string) list) list"

definition sections :: "config \<Rightarrow> string list" where
  "sections config = map fst config"

definition config_get :: "config \<Rightarrow> string \<Rightarrow> string \<Rightarrow> exn + string" where
  "config_get config section option =
     (case map_of config section of
        None \<Rightarrow> Inl NoSectionError
      | Some kvs \<Rightarrow>
          (case map_of kvs option of None \<Rightarrow> Inl NoOptionError | Some v \<Rightarrow> Inr v))"

section \<open>Series operations\<close>

text \<open>
  The pandas operations the engine calls, on one column. All of them take the null marker
  alone as missing: a text, empty or not, is a value to them.
\<close>

definition series_fillna :: "cell \<Rightarrow> cell list \<Rightarrow> cell list" where
  "series_fillna v xs = map (\<lambda>x. if x = Null then v else x) xs"

definition notna :: "cell list \<Rightarrow> cell list" where
  "notna xs = filter (\<lambda>x. x \<noteq> Null) xs"

fun is_Str :: "cell \<Rightarrow> bool" where
  "is_Str (Str _) = True"
| "is_Str _ = False"

fun is_Num :: "cell \<Rightarrow> bool" where
  "is_Num (Num _) = True"
| "is_Num _ = False"

fun num_values :: "cell list \<Rightarrow> rat list" where
  "num_values [] = []"
| "num_values (Num v # xs) = v # num_values xs"
| "num_values (_ # xs) = num_values xs"

fun str_values :: "cell list \<Rightarrow> string list" where
  "str_values [] = []"
| "str_values (Str v # xs) = v # str_values xs"
| "str_values (_ # xs) = str_values xs"

text \<open>
  \<^verbatim>\<open>s.mean()\<close> and \<^verbatim>\<open>s.median()\<close> skip the null markers, raise \<^verbatim>\<open>TypeError\<close> on a text
  and are \<^verbatim>\<open>NaN\<close> when nothing is left.
\<close>

definition series_mean :: "cell list \<Rightarrow> exn + cell" where
  "series_mean xs =
     (if list_ex is_Str xs then Inl TypeError
      else let vs = num_values xs in
        if vs = [] then Inr Null else Inr (Num (sum_list vs / of_nat (length vs))))"

definition series_median :: "cell list \<Rightarrow> exn + cell" where
  "series_median xs =
     (if list_ex is_Str xs then Inl TypeError
      else let vs = sort (num_values xs); n = length vs in
        if n = 0 then Inr Null
        else if odd n then Inr (Num (vs ! (n div 2)))
        else Inr (Num ((vs ! (n div 2 - 1) + vs ! (n div 2)) / 2)))"

text \<open>
  \<^verbatim>\<open>s.mode()\<close>: the most frequent values among the non-null ones, sorted when they are all
  numbers or all texts and in order of first occurrence otherwise; the series is empty
  when every entry is null. \<^verbatim>\<open>s.mode()[0]\<close> raises on the empty series.
\<close>

definition series_mode :: "cell list \<Rightarrow> cell list" where
  "series_mode xs =
     (let vs = notna xs;
          top = foldr max (map (count_list vs) vs) 0;
          modes = remdups (filter (\<lambda>v. count_list vs v = top) vs)
      in if list_all is_Num modes then map Num (sort (num_values modes))
         else if list_all is_Str modes then map Str (sort (str_values modes))
         else modes)"

definition first_item :: "cell list \<Rightarrow> exn + cell" where
  "first_item xs = (case xs of [] \<Rightarrow> Inl KeyError | x # _ \<Rightarrow> Inr x)"

text \<open>\<^verbatim>\<open>s.ffill()\<close> and \<^verbatim>\<open>s.bfill()\<close>.\<close>

fun ffill_from :: "cell \<Rightarrow> cell list \<Rightarrow> cell list" where
  "ffill_from last_valid [] = []"
| "ffill_from last_valid (x # xs) =
     (if x = Null then last_valid # ffill_from last_valid xs else x # ffill_from x xs)"

definition series_ffill :: "cell list \<Rightarrow> cell list" where
  "series_ffill xs = ffill_from Null xs"

fun series_bfill :: "cell list \<Rightarrow> cell list" where
  "series_bfill [] = []"
| "series_bfill (x # xs) =
     (let filled = series_bfill xs in
      (if x = Null then (case filled of [] \<Rightarrow> Null | y # _ \<Rightarrow> y) else x) # filled)"

text \<open>
  \<^verbatim>\<open>s.interpolate(method=...)\<close> is numerical code of pandas and scipy. The engine takes it
  as a parameter: from the method name, the row index and the values to the new values or
  the exception raised.
\<close>

type_synonym interpolator = "string \<Rightarrow> nat list \<Rightarrow> cell list \<Rightarrow> exn + cell list"


section \<open>Frame operations\<close>

text \<open>\<^verbatim>\<open>df.dropna(subset=[column])\<close>: a new frame without the rows whose entry is null.\<close>

definition keep :: "bool list \<Rightarrow> 'a list \<Rightarrow> 'a list" where
  "keep flags xs = map snd (filter fst (zip flags xs))"

definition dropna :: "frame \<Rightarrow> string \<Rightarrow> exn + frame" where
  "dropna df column =
     (case map_of (cols df) column of
        None \<Rightarrow> Inl KeyError
      | Some xs \<Rightarrow>
          let notnull = map (\<lambda>x. x \<noteq> Null) xs in
          Inr \<lparr>index = keep notnull (index df),
               cols = map (\<lambda>c. (fst c, keep notnull (snd c))) (cols df)\<rparr>)"

text \<open>
  \<^verbatim>\<open>df.loc[:, column] = values\<close>: the column's entries are replaced in the frame object
  itself (a name the frame does not have would be appended as a new column).
\<close>

definition loc_setitem :: "frame \<Rightarrow> string \<Rightarrow> cell list \<Rightarrow> frame" where
  "loc_setitem df column ys =
     (if column \<in> set (columns df)
      then df\<lparr>cols := map (\<lambda>c. if fst c = column then (fst c, ys) else c) (cols df)\<rparr>
      else df\<lparr>cols := cols df @ [(column, ys)]\<rparr>)"

section \<open>Program state\<close>

text \<open>
  The records written to the log file, one constructor per \<^verbatim>\<open>logging\<close> call of the source,
  with the values its message is formatted from.
\<close>

datatype log_record =
    ReadConfigOk string
  | ReadConfigError string exn
  | Cleaned string string
  | InputError string exn
  | Completed
  | Failed

text \<open>
  Inside \<^verbatim>\<open>input_missing_data\<close> the variable \<^verbatim>\<open>df\<close> first names the frame object the caller
  passed, which \<^verbatim>\<open>df.loc[:, column] = ...\<close> changes in place, and from the first
  \<^verbatim>\<open>df = df.dropna(...)\<close> on a new object the caller never sees. The state keeps both.
\<close>

record pstate =
  passed :: frame
  rebound :: "frame option"
  logged :: "log_record list"

definition df_of :: "pstate \<Rightarrow> frame" where
  "df_of s = (case rebound s of None \<Rightarrow> passed s | Some f \<Rightarrow> f)"

definition assign_in_place :: "pstate \<Rightarrow> string \<Rightarrow> cell list \<Rightarrow> pstate" where
  "assign_in_place s column ys =
     (case rebound s of
        None \<Rightarrow> s\<lparr>passed := loc_setitem (passed s) column ys\<rparr>
      | Some f \<Rightarrow> s\<lparr>rebound := Some (loc_setitem f column ys)\<rparr>)"

definition rebind :: "pstate \<Rightarrow> frame \<Rightarrow> pstate" where
  "rebind s f = s\<lparr>rebound := Some f\<rparr>"

definition bindE :: "exn + 'a \<Rightarrow> ('a \<Rightarrow> exn + 'b) \<Rightarrow> exn + 'b" where
  "bindE m f = (case m of Inl e \<Rightarrow> Inl e | Inr x \<Rightarrow> f x)"

section \<open>Imputation engine\<close>

text \<open>Lines 52 to 70: the chain of comparisons on the lower-cased strategy.\<close>

definition apply_strategy :: "interpolator \<Rightarrow> string \<Rightarrow> string \<Rightarrow> pstate \<Rightarrow> exn + pstate" where
  "apply_strategy interp strategy column s =
     (if strategy = ''mean'' then
        bindE (getitem (df_of s) column) (\<lambda>xs.
        bindE (series_mean xs) (\<lambda>m.
        Inr (assign_in_place s column (series_fillna m xs))))
      else if strategy = ''median'' then
        bindE (getitem (df_of s) column) (\<lambda>xs.
        bindE (series_median xs) (\<lambda>m.
        Inr (assign_in_place s column (series_fillna m xs))))
      else if strategy = ''mode'' then
        bindE (getitem (df_of s) column) (\<lambda>xs.
        bindE (first_item (series_mode xs)) (\<lambda>mode_value.
        Inr (assign_in_place s column (series_fillna mode_value xs))))
      else if strategy = ''zero'' then
        bindE (getitem (df_of s) column) (\<lambda>xs.
        Inr (assign_in_place s column (series_fillna (Num 0) xs)))
      else if strategy = ''remove'' then
        bindE (dropna (df_of s) column) (\<lambda>f. Inr (rebind s f))
      else if strategy = ''ffill'' then
        bindE (getitem (df_of s) column) (\<lambda>xs.
        Inr (assign_in_place s column (series_ffill xs)))
      else if strategy = ''bfill'' then
        bindE (getitem (df_of s) column) (\<lambda>xs.
        Inr (assign_in_place s column (series_bfill xs)))
      else if strategy \<in> set [''nearest'', ''linear'', ''slinear'', ''quadratic'', ''cubic''] then
        bindE (getitem (df_of s) column) (\<lambda>xs.
        bindE (interp strategy (index (df_of s)) xs) (\<lambda>ys.
        Inr (assign_in_place s column ys)))
      else Inl (AttributeError (''invalid strategy ('' @ strategy @ '')'')))"

text \<open>Lines 49 to 72: the body of the loop for one column.\<close>

definition loop_body :: "interpolator \<Rightarrow> config \<Rightarrow> string \<Rightarrow> pstate \<Rightarrow> exn + pstate" where
  "loop_body interp config column s =
     (if strip column \<in> set (sections config) then
        bindE (config_get config (strip column) ''strategy'') (\<lambda>v.
        let strategy = lower v in
        bindE (apply_strategy interp strategy column s) (\<lambda>s'.
        Inr (s'\<lparr>logged := logged s' @ [Cleaned column strategy]\<rparr>)))
      else Inr s)"

text \<open>
  Line 48: the loop over the column names. An exception leaves the loop with the column
  it was raised at and the state reached so far.
\<close>

fun columns_loop ::
  "interpolator \<Rightarrow> config \<Rightarrow> string list \<Rightarrow> pstate \<Rightarrow> (string \<times> exn \<times> pstate) + pstate" where
  "columns_loop interp config [] s = Inr s"
| "columns_loop interp config (column # rest) s =
     (case loop_body interp config column s of
        Inl e \<Rightarrow> Inl (column, e, s)
      | Inr s' \<Rightarrow> columns_loop interp config rest s')"

text \<open>
  Lines 47 to 75. The handler logs the exception and falls off the end of the function:
  the call returns \<^verbatim>\<open>None\<close>. The result is the returned frame, if any, and the final state.
\<close>

definition input_missing_data :: "interpolator \<Rightarrow> frame \<Rightarrow> config \<Rightarrow> frame option \<times> pstate" where
  "input_missing_data interp df config =
     (case columns_loop interp config (columns df) \<lparr>passed = df, rebound = None, logged = []\<rparr> of
        Inr s \<Rightarrow> (Some (df_of s), s)
      | Inl (column, e, s) \<Rightarrow> (None, s\<lparr>logged := logged s @ [InputError column e]\<rparr>))"

section \<open>Configuration loader\<close>

text \<open>
  What a path holds: nothing that can be opened, a text the parser rejects with the given
  exception, or a text it parses to a configuration.
\<close>

datatype source = Unopenable | Malformed exn | Parses config

text \<open>
  \<^verbatim>\<open>ConfigParser.read(filename)\<close>: a file that cannot be opened is skipped and the parser
  stays empty; a parse error is raised.
\<close>

definition parser_read :: "(string \<Rightarrow> source) \<Rightarrow> string \<Rightarrow> exn + config" where
  "parser_read fs filename =
     (case fs filename of
        Unopenable \<Rightarrow> Inr []
      | Malformed e \<Rightarrow> Inl e
      | Parses config \<Rightarrow> Inr config)"

text \<open>Lines 30 to 37: the result or the re-raised exception, and the log record written.\<close>

definition read_config :: "(string \<Rightarrow> source) \<Rightarrow> string \<Rightarrow> (exn + config) \<times> log_record list" where
  "read_config fs config_file =
     (case parser_read fs config_file of
        Inr config \<Rightarrow> (Inr config, [ReadConfigOk config_file])
      | Inl e \<Rightarrow> (Inl e, [ReadConfigError config_file e]))"

section \<open>The script\<close>





section \<open>Missing-data detector\<close>

text \<open>
  \<^verbatim>\<open>find_columns_with_missing_data\<close>, lines 10 to 21: the loop over \<^verbatim>\<open>df.columns\<close> with the
  list it appends to. The frame is threaded through the loop and returned beside the
  result, so that what the call leaves of its argument is part of the model; the source
  assigns nothing to it.
\<close>

fun find_loop :: "frame \<Rightarrow> string list \<Rightarrow> string list \<Rightarrow> exn + (string list \<times> frame)" where
  "find_loop df [] missing_data_columns = Inr (missing_data_columns, df)"
| "find_loop df (column # rest) missing_data_columns =
     (case getitem df column of
        Inl e \<Rightarrow> Inl e
      | Inr s \<Rightarrow>
          if isnull_any s \<or> eq_empty_any s
          then find_loop df rest (missing_data_columns @ [column])
          else find_loop df rest missing_data_columns)"

definition find_columns_with_missing_data :: "frame \<Rightarrow> exn + (string list \<times> frame)" where
  "find_columns_with_missing_data df = find_loop df (columns df) []"

section \<open>An interpolator\<close>




section \<open>Notions of the specification\<close>

text \<open>The spec's notion of a missing value: the null marker or the empty string.\<close>

definition missing :: "cell \<Rightarrow> bool" where
  "missing x \<longleftrightarrow> x = Null \<or> x = Str []"

definition has_missing :: "cell list \<Rightarrow> bool" where
  "has_missing xs \<longleftrightarrow> (\<exists>x \<in> set xs. missing x)"

text \<open>The entries of a column, for stating properties (no entries for a name not there).\<close>

definition column :: "frame \<Rightarrow> string \<Rightarrow> cell list" where
  "column df c = (case map_of (cols df) c of None \<Rightarrow> [] | Some xs \<Rightarrow> xs)"








text \<open>A sequence of forward (\<open>True\<close>) and backward (\<open>False\<close>) fills of one column.\<close>

fun fills :: "bool list \<Rightarrow> cell list \<Rightarrow> cell list" where
  "fills [] xs = xs"
| "fills (forward # rest) xs = fills rest (if forward then series_ffill xs else series_bfill xs)"


text \<open>The state \<^verbatim>\<open>input_missing_data\<close> starts from.\<close>

definition initial :: "frame \<Rightarrow> pstate" where
  "initial df = \<lparr>passed = df, rebound = None, logged = []\<rparr>"


section \<open>Scenarios\<close>





text \<open>File systems: one without files, and one holding a single parsable file.\<close>

definition no_files :: "string \<Rightarrow> source" where
  "no_files path = Unopenable"


section \<open>Basic facts\<close>

subsection \<open>Row selection\<close>

lemma keep_simps [simp]:
  "keep [] xs = []" "keep bs [] = []"
  "keep (b # bs) (x # xs) = (if b then x # keep bs xs else keep bs xs)"
  by (simp_all add: keep_def)






subsection \<open>Columns of a frame\<close>

lemma getitem_column: "getitem df c = Inr xs \<Longrightarrow> column df c = xs"
  by (simp add: getitem_def column_def split: option.splits)


lemma map_of_Some_fst: "map_of ps k = Some v \<Longrightarrow> k \<in> fst ` set ps"
  by (induction ps) (auto split: if_splits)

lemma getitem_Inr_columns: "getitem df c = Inr xs \<Longrightarrow> c \<in> set (columns df)"
  by (simp add: getitem_def columns_def map_of_Some_fst split: option.splits)



lemma columns_loc_setitem: "c \<in> set (columns df) \<Longrightarrow> columns (loc_setitem df c ys) = columns df"
  by (auto simp: loc_setitem_def columns_def)





lemma loc_setitem_twice:
  "c \<in> set (columns df) \<Longrightarrow> loc_setitem (loc_setitem df c ys) c ys = loc_setitem df c ys"
proof -
  assume c: "c \<in> set (columns df)"
  let ?g = "\<lambda>p::string \<times> cell list. if fst p = c then (fst p, ys) else p"
  have "c \<in> set (columns (loc_setitem df c ys))"
    using c by (simp add: columns_loc_setitem)
  moreover have "map ?g (map ?g (cols df)) = map ?g (cols df)"
    by simp
  ultimately show ?thesis
    using c by (simp add: loc_setitem_def)
qed





lemma dropna_in_columns: "dropna df c = Inr df' \<Longrightarrow> c \<in> set (columns df)"
  by (simp add: dropna_def columns_def map_of_Some_fst split: option.splits)

lemma dropna_succeeds: "c \<in> set (columns df) \<Longrightarrow> \<exists>df'. dropna df c = Inr df'"
  by (auto simp: dropna_def columns_def Let_def map_of_eq_None_iff split: option.splits)




subsection \<open>The state\<close>






lemma logged_assign_in_place: "logged (assign_in_place s c ys) = logged s"
  by (simp add: assign_in_place_def split: option.splits)

lemma logged_rebind: "logged (rebind s f) = logged s"
  by (simp add: rebind_def)

subsection \<open>One column\<close>



lemma loop_body_unconfigured:
  "strip c \<notin> set (sections config) \<Longrightarrow> loop_body interp config c s = Inr s"
  by (simp add: loop_body_def)



subsection \<open>The loop\<close>




subsection \<open>Series operations\<close>



lemma length_ffill_from: "length (ffill_from l xs) = length xs"
  by (induction xs arbitrary: l) simp_all

lemma length_series_ffill: "length (series_ffill xs) = length xs"
  by (simp add: series_ffill_def length_ffill_from)

lemma length_series_bfill: "length (series_bfill xs) = length xs"
  by (induction xs) (simp_all add: Let_def)





lemma ffill_from_keeps: "i < length xs \<Longrightarrow> xs ! i \<noteq> Null \<Longrightarrow> ffill_from l xs ! i = xs ! i"
proof (induction xs arbitrary: l i)
  case Nil
  then show ?case by simp
next
  case (Cons x xs)
  then show ?case by (cases i) simp_all
qed

lemma series_ffill_keeps: "i < length xs \<Longrightarrow> xs ! i \<noteq> Null \<Longrightarrow> series_ffill xs ! i = xs ! i"
  by (simp add: series_ffill_def ffill_from_keeps)

lemma series_bfill_keeps: "i < length xs \<Longrightarrow> xs ! i \<noteq> Null \<Longrightarrow> series_bfill xs ! i = xs ! i"
proof (induction xs arbitrary: i)
  case Nil
  then show ?case by simp
next
  case (Cons x xs)
  then show ?case by (cases i) (simp_all add: Let_def)
qed

lemma ffill_from_idem: "ffill_from l (ffill_from l xs) = ffill_from l xs"
proof (induction xs arbitrary: l)
  case Nil
  then show ?case by simp
next
  case (Cons x xs)
  show ?case
  proof (cases "x = Null")
    case True
    with Cons.IH [of l] show ?thesis by simp
  next
    case False
    with Cons.IH [of x] show ?thesis by simp
  qed
qed

lemma series_ffill_idem: "series_ffill (series_ffill xs) = series_ffill xs"
  by (simp add: series_ffill_def ffill_from_idem)

lemma series_bfill_null_head:
  "series_bfill xs = Null # ys \<Longrightarrow> (case ys of [] \<Rightarrow> Null | y # _ \<Rightarrow> y) = Null"
  by (cases xs) (auto simp: Let_def split: if_splits)

lemma series_bfill_idem: "series_bfill (series_bfill xs) = series_bfill xs"
proof (induction xs)
  case Nil
  then show ?case by simp
next
  case (Cons x xs)
  let ?h = "if x = Null then (case series_bfill xs of [] \<Rightarrow> Null | y # _ \<Rightarrow> y) else x"
  have eq: "series_bfill (x # xs) = ?h # series_bfill xs"
    by (simp add: Let_def)
  have "series_bfill (?h # series_bfill xs) = ?h # series_bfill xs"
  proof (cases "?h = Null")
    case True
    with eq have "series_bfill (x # xs) = Null # series_bfill xs" by simp
    from series_bfill_null_head [OF this] True Cons.IH show ?thesis
      by (simp add: Let_def)
  next
    case False
    with Cons.IH show ?thesis by (simp add: Let_def)
  qed
  with eq show ?case by simp
qed

lemma length_fills: "length (fills ops xs) = length xs"
  by (induction ops arbitrary: xs) (simp_all add: length_series_ffill length_series_bfill)

lemma fills_keeps: "i < length xs \<Longrightarrow> xs ! i \<noteq> Null \<Longrightarrow> fills ops xs ! i = xs ! i"
proof (induction ops arbitrary: xs)
  case Nil
  then show ?case by simp
next
  case (Cons forward ops)
  let ?ys = "if forward then series_ffill xs else series_bfill xs"
  have len: "i < length ?ys"
    using Cons.prems(1) by (simp add: length_series_ffill length_series_bfill)
  have same: "?ys ! i = xs ! i"
    using Cons.prems by (simp add: series_ffill_keeps series_bfill_keeps)
  then have "?ys ! i \<noteq> Null" using Cons.prems(2) by simp
  from Cons.IH [OF len this] same show ?case by simp
qed

subsection \<open>One step of the loop on the frames\<close>











subsection \<open>The whole loop\<close>

lemma input_missing_data_initial:
  "input_missing_data interp df config =
     (case columns_loop interp config (columns df) (initial df) of
        Inr s \<Rightarrow> (Some (df_of s), s)
      | Inl (x, e, s) \<Rightarrow> (None, s\<lparr>logged := logged s @ [InputError x e]\<rparr>))"
  by (simp add: input_missing_data_def initial_def)


lemma returned_none:
  "fst (input_missing_data interp df config) = None \<Longrightarrow>
   \<exists>c e s. columns_loop interp config (columns df) (initial df) = Inl (c, e, s)
       \<and> snd (input_missing_data interp df config) = s\<lparr>logged := logged s @ [InputError c e]\<rparr>"
  by (auto simp: input_missing_data_initial split: sum.splits)












subsection \<open>The interpolator\<close>






subsection \<open>What the strategies compute\<close>













subsection \<open>A failing column\<close>






subsection \<open>The detector\<close>

lemma map_of_distinct_fst:
  "distinct (map fst ps) \<Longrightarrow> (n, xs) \<in> set ps \<Longrightarrow> map_of ps n = Some xs"
  by simp

lemma getitem_member:
  "distinct (columns df) \<Longrightarrow> (n, xs) \<in> set (cols df) \<Longrightarrow> getitem df n = Inr xs"
  by (simp add: getitem_def columns_def)

lemma detect_iff: "isnull_any xs \<or> eq_empty_any xs \<longleftrightarrow> has_missing xs"
  by (auto simp: isnull_any_def eq_empty_any_def has_missing_def missing_def list_ex_iff)

lemma find_loop_filter:
  assumes "distinct (columns df)" and "set ps \<subseteq> set (cols df)"
  shows "find_loop df (map fst ps) acc =
           Inr (acc @ map fst (filter (\<lambda>c. has_missing (snd c)) ps), df)"
  using assms(2)
proof (induction ps arbitrary: acc)
  case Nil
  then show ?case by simp
next
  case (Cons p ps)
  obtain n xs where p: "p = (n, xs)" by (cases p)
  with Cons.prems have "getitem df n = Inr xs"
    using assms(1) by (simp add: getitem_member)
  moreover from Cons.prems have "set ps \<subseteq> set (cols df)" by simp
  ultimately show ?case
    using Cons.IH p detect_iff [of xs] by simp
qed

text \<open>
  C9. On a frame with distinct column names the detector returns normally, its result is
  the names of exactly the columns holding a null marker or an empty string, in the
  frame's column order, and the frame is what it was.
\<close>

theorem find_columns_with_missing_data_spec:
  assumes "wf_frame df"
  shows "find_columns_with_missing_data df =
           Inr (map fst (filter (\<lambda>c. has_missing (snd c)) (cols df)), df)"
  using assms find_loop_filter [of df "cols df" "[]"]
  by (simp add: find_columns_with_missing_data_def wf_frame_def columns_def)

theorem find_columns_with_missing_data_witness:
  "wf_frame \<lparr>index = [0, 1],
             cols = [(''A'', [Num 1, Num 2]), (''B'', [Str ''x'', Str []]), (''C'', [Null, Num 3])]\<rparr>
   \<and> find_columns_with_missing_data
         \<lparr>index = [0, 1],
          cols = [(''A'', [Num 1, Num 2]), (''B'', [Str ''x'', Str []]), (''C'', [Null, Num 3])]\<rparr>
       = Inr ([''B'', ''C''],
              \<lparr>index = [0, 1],
               cols = [(''A'', [Num 1, Num 2]), (''B'', [Str ''x'', Str []]), (''C'', [Null, Num 3])]\<rparr>)"
  using find_columns_with_missing_data_spec
    [of "\<lparr>index = [0, 1],
          cols = [(''A'', [Num 1, Num 2]), (''B'', [Str ''x'', Str []]), (''C'', [Null, Num 3])]\<rparr>"]
  by (simp add: wf_frame_def columns_def has_missing_def missing_def)

section \<open>The imputation engine\<close>



text \<open>
  C6. Forward and backward fills of a column, in any number and order, keep the length of
  the column and every entry that is not null, so every entry that is not missing; and
  filling forward twice, or backward twice, is filling once.
\<close>

theorem fills_keep_values_and_are_idempotent:
  "length (fills ops xs) = length xs
   \<and> (\<forall>i < length xs. xs ! i \<noteq> Null \<longrightarrow> fills ops xs ! i = xs ! i)
   \<and> (\<forall>i < length xs. \<not> missing (xs ! i) \<longrightarrow> fills ops xs ! i = xs ! i)
   \<and> series_ffill (series_ffill xs) = series_ffill xs
   \<and> series_bfill (series_bfill xs) = series_bfill xs"
  by (simp add: length_fills fills_keeps series_ffill_idem series_bfill_idem missing_def)

theorem fills_keep_values_witness:
  "(1::nat) < length [Null, Num 2, Null, Str ''b'', Null]
   \<and> \<not> missing ([Null, Num 2, Null, Str ''b'', Null] ! 1)
   \<and> fills [True, False] [Null, Num 2, Null, Str ''b'', Null] ! 1 = Num 2
   \<and> fills [True, False] [Null, Num 2, Null, Str ''b'', Null]
       = [Num 2, Num 2, Num 2, Str ''b'', Str ''b'']"
proof -
  have "fills [True, False] [Null, Num 2, Null, Str ''b'', Null]
          = [Num 2, Num 2, Num 2, Str ''b'', Str ''b'']"
    by code_simp
  then show ?thesis
    using fills_keep_values_and_are_idempotent [of "[True, False]" "[Null, Num 2, Null, Str ''b'', Null]"]
    by (simp add: missing_def)
qed
















text \<open>
  C8. \<^verbatim>\<open>ConfigParser.read\<close> skips a file it cannot open, so for a path that cannot be opened
  \<^verbatim>\<open>read_config\<close> returns the empty configuration and logs that the file was read.
\<close>

theorem read_config_unopenable_returns_empty:
  "read_config no_files ''parameter_config.ini''
     = (Inr [], [ReadConfigOk ''parameter_config.ini''])"
  by (simp add: read_config_def parser_read_def no_files_def)

lemma read_config_malformed_reraises:
  "fs config_file = Malformed e \<Longrightarrow>
   read_config fs config_file = (Inl e, [ReadConfigError config_file e])"
  by (simp add: read_config_def parser_read_def)




end
